theory Spec2Isabelle
  imports Main "HOL-Library.Word"
begin

section \<open>Picture composition of pibooth: \<^verbatim>\<open>pibooth/pictures/__init__.py\<close>\<close>

text \<open>
  The module chooses the orientation and the pixel size of the final picture, picks one of
  two picture makers, loads and recolours image assets. It is stateless: every function
  below is a function of its arguments and of the library primitives it calls.
  Python exceptions are values of type \<open>error\<close>; a function that can raise returns
  \<open>error + 'a\<close>, with \<open>Inl\<close> for the exception.
\<close>

subsection \<open>Exceptions and images\<close>

text \<open>
  The first three are raised by the code of this module (or by the library calls modelled
  below); the next three stand for what the primitives taken as parameters may raise.
  \<open>InvalidGeometryError\<close> is the error the specification names for a rejected size: no
  statement of the module raises it, and it is here so that this can be said.
\<close>

datatype error =
    IndexError | ValueError | AssertionError
  | ZeroDivisionError | OSError | PygameError
  | InvalidGeometryError

definition bind_err :: "error + 'a \<Rightarrow> ('a \<Rightarrow> error + 'b) \<Rightarrow> error + 'b" where
  "bind_err m f = (case m of Inl e \<Rightarrow> Inl e | Inr x \<Rightarrow> f x)"

type_synonym byte = "8 word"

text \<open>
  A PIL image as far as this module looks at it: its mode (\<^verbatim>\<open>'RGBA'\<close>, \<^verbatim>\<open>'RGB'\<close>,
  \<^verbatim>\<open>'L'\<close>, ...), its \<^verbatim>\<open>size\<close> attribute (width, height) and its bands, each band holding
  one byte per pixel in row order. The field is named \<open>im_size\<close> because \<open>size\<close> is a
  constant of HOL.
\<close>

record pil_image =
  mode :: string
  im_size :: "int \<times> int"
  bands :: "byte list list"

subsection \<open>Orientation\<close>

definition AUTO :: string where
  "AUTO = ''auto''"

definition PORTRAIT :: string where
  "PORTRAIT = ''portrait''"

definition LANDSCAPE :: string where
  "LANDSCAPE = ''landscape''"

text \<open>
  \<^verbatim>\<open>get_best_orientation(captures)\<close>. The first statement reads \<^verbatim>\<open>captures[0]\<close>, which
  raises IndexError on the empty list before any length is compared; the final
  \<^verbatim>\<open>else\<close> raises ValueError.
\<close>

definition get_best_orientation :: "pil_image list \<Rightarrow> error + string" where
  "get_best_orientation captures =
     (case captures of
        [] \<Rightarrow> Inl IndexError
      | c0 # _ \<Rightarrow>
          (let is_portrait = fst (im_size c0) < snd (im_size c0) in
           if length captures = 1 \<or> length captures = 4 then
             (if is_portrait then Inr PORTRAIT else Inr LANDSCAPE)
           else if length captures = 2 \<or> length captures = 3 then
             (if is_portrait then Inr LANDSCAPE else Inr PORTRAIT)
           else Inl ValueError))"

subsection \<open>Picture makers\<close>

text \<open>
  The two maker classes live in \<^verbatim>\<open>pibooth.pictures.maker\<close>; this module only calls their
  constructors, \<^verbatim>\<open>maker.PilPictureMaker(width, height, *captures)\<close> and
  \<^verbatim>\<open>maker.OpenCvPictureMaker(width, height, *captures)\<close>. A constructed maker is the
  record of that call.
\<close>

datatype picture_maker =
    PilPictureMaker int int "pil_image list"
  | OpenCvPictureMaker int int "pil_image list"

text \<open>
  \<^verbatim>\<open>get_picture_maker(captures, orientation=AUTO, paper_format=(4, 6), force_pil=False)\<close>.
  The first argument \<open>cv2\<close> is the truth value of \<^verbatim>\<open>maker.cv2\<close>, the OpenCV module or
  \<^verbatim>\<open>None\<close> when it could not be imported.
\<close>

definition get_picture_maker ::
  "bool \<Rightarrow> pil_image list \<Rightarrow> string \<Rightarrow> int \<times> int \<Rightarrow> bool \<Rightarrow> error + picture_maker" where
  "get_picture_maker cv2 captures orientation paper_format force_pil =
     (if orientation \<notin> set [AUTO, PORTRAIT, LANDSCAPE] then Inl AssertionError
      else
        case (if orientation = AUTO then get_best_orientation captures else Inr orientation) of
          Inl e \<Rightarrow> Inl e
        | Inr orientation1 \<Rightarrow>
            (let paper_format1 =
                   (if fst paper_format > snd paper_format
                    then (snd paper_format, fst paper_format) else paper_format);
                 size0 = (fst paper_format1 * 600, snd paper_format1 * 600);
                 size1 = (if orientation1 = LANDSCAPE then (snd size0, fst size0) else size0)
             in if \<not> cv2 \<or> force_pil
                then Inr (PilPictureMaker (fst size1) (snd size1) captures)
                else Inr (OpenCvPictureMaker (fst size1) (snd size1) captures)))"

subsection \<open>Library primitives\<close>

type_synonym color = "int \<times> int \<times> int"

text \<open>
  A pygame surface: its size, its pixel format and its pixels, row by row, each pixel
  the list of its bytes.
\<close>

record surface =
  surf_size :: "int \<times> int"
  surf_format :: string
  surf_rows :: "byte list list list"

text \<open>
  What the module takes from its environment and from code that is not in this file:
  the file system, the image decoders, the per-pixel tables of PIL, its resampling and
  cropping, the rotation of pygame, and the two functions of \<^verbatim>\<open>pibooth.pictures.sizing\<close>.
  Each is a parameter; the ones that can raise return \<open>error + 'a\<close>.
  \<^item> \<open>package_dir\<close>: \<^verbatim>\<open>osp.dirname(osp.abspath(__file__))\<close>;
  \<^item> \<open>isfile\<close>: \<^verbatim>\<open>osp.isfile\<close>;
  \<^item> \<open>image_load\<close>: \<^verbatim>\<open>pygame.image.load(path).convert()\<close>;
  \<^item> \<open>Image_open\<close>: \<^verbatim>\<open>Image.open\<close>;
  \<^item> \<open>luma\<close>: the gray value \<^verbatim>\<open>convert('L')\<close> gives a pixel, from the pixel's band values;
  \<^item> \<open>colorize_lut\<close>: the RGB value \<^verbatim>\<open>ImageOps.colorize(_, black, white)\<close> gives a gray
    value;
  \<^item> \<open>crop_region\<close>: \<^verbatim>\<open>Image.crop(box)\<close>;
  \<^item> \<open>resample\<close>: \<^verbatim>\<open>Image.resize(size, filter)\<close> to a size other than the image's own,
    the flag telling ANTIALIAS from NEAREST;
  \<^item> \<open>rotate\<close>: \<^verbatim>\<open>pygame.transform.rotate\<close>;
  \<^item> \<open>new_size_by_croping_ratio\<close>, \<open>new_size_keep_aspect_ratio\<close>: the functions of
    \<^verbatim>\<open>sizing\<close>, called with (original size, target size).
\<close>

record library =
  package_dir :: string
  isfile :: "string \<Rightarrow> bool"
  image_load :: "string \<Rightarrow> error + surface"
  Image_open :: "string \<Rightarrow> error + pil_image"
  luma :: "byte list \<Rightarrow> byte"
  colorize_lut :: "color \<Rightarrow> color \<Rightarrow> byte \<Rightarrow> byte \<times> byte \<times> byte"
  crop_region :: "pil_image \<Rightarrow> int \<times> int \<times> int \<times> int \<Rightarrow> error + pil_image"
  resample :: "pil_image \<Rightarrow> int \<times> int \<Rightarrow> bool \<Rightarrow> error + pil_image"
  rotate :: "surface \<Rightarrow> int \<Rightarrow> surface"
  new_size_by_croping_ratio :: "int \<times> int \<Rightarrow> int \<times> int \<Rightarrow> error + int \<times> int \<times> int \<times> int"
  new_size_keep_aspect_ratio :: "int \<times> int \<Rightarrow> int \<times> int \<Rightarrow> error + int \<times> int"

definition npixels :: "pil_image \<Rightarrow> nat" where
  "npixels im = nat (fst (im_size im) * snd (im_size im))"

text \<open>The band values of pixel \<open>i\<close>.\<close>

definition pixel_at :: "pil_image \<Rightarrow> nat \<Rightarrow> byte list" where
  "pixel_at im i = map (\<lambda>b. b ! i) (bands im)"

text \<open>
  \<^verbatim>\<open>Image.new(mode, size, color)\<close>, every pixel of the colour given (one value per band).
  PIL refuses a negative width or height with ValueError and accepts zero.
\<close>

definition Image_new :: "string \<Rightarrow> int \<times> int \<Rightarrow> int list \<Rightarrow> error + pil_image" where
  "Image_new md sz col =
     (if fst sz < 0 \<or> snd sz < 0 then Inl ValueError
      else Inr \<lparr>mode = md, im_size = sz,
                bands = map (\<lambda>c. replicate (nat (fst sz * snd sz)) (word_of_int c)) col\<rparr>)"

text \<open>\<^verbatim>\<open>Image.split()\<close>: one image per band; only the band's data is kept here.\<close>

definition im_split :: "pil_image \<Rightarrow> byte list list" where
  "im_split im = bands im"

text \<open>\<^verbatim>\<open>Image.convert('L')\<close>: same size, one band, the luma of each pixel.\<close>

definition convert_L :: "library \<Rightarrow> pil_image \<Rightarrow> pil_image" where
  "convert_L lib im =
     \<lparr>mode = ''L'', im_size = im_size im,
      bands = [map (\<lambda>i. luma lib (pixel_at im i)) [0..<npixels im]]\<rparr>"

text \<open>
  \<^verbatim>\<open>ImageOps.colorize(image, black, white)\<close>: asserts that the image has mode L and
  returns an RGB image of the same size, each gray value looked up in the table built
  from the two colours.
\<close>

definition colorize :: "library \<Rightarrow> pil_image \<Rightarrow> color \<Rightarrow> color \<Rightarrow> error + pil_image" where
  "colorize lib im black white =
     (if mode im \<noteq> ''L'' then Inl AssertionError
      else
        let l = (case bands im of [] \<Rightarrow> [] | b # _ \<Rightarrow> b);
            t = colorize_lut lib black white
        in Inr \<lparr>mode = ''RGB'', im_size = im_size im,
                 bands = [map (\<lambda>v. fst (t v)) l,
                          map (\<lambda>v. fst (snd (t v))) l,
                          map (\<lambda>v. snd (snd (t v))) l]\<rparr>)"

text \<open>
  \<^verbatim>\<open>Image.putalpha(alpha)\<close> with a band for \<^verbatim>\<open>alpha\<close>: an RGB image becomes RGBA and an L
  image LA, then the alpha band is replaced. The other modes, which PIL converts first,
  are never met here (\<^verbatim>\<open>colorize\<close> returns RGB) and are left out: they give ValueError.
\<close>

definition putalpha :: "pil_image \<Rightarrow> byte list \<Rightarrow> error + pil_image" where
  "putalpha im alpha =
     (if mode im = ''RGB'' \<or> mode im = ''RGBA''
      then Inr (im\<lparr>mode := ''RGBA'', bands := take 3 (bands im) @ [alpha]\<rparr>)
      else if mode im = ''L'' \<or> mode im = ''LA''
      then Inr (im\<lparr>mode := ''LA'', bands := take 1 (bands im) @ [alpha]\<rparr>)
      else Inl ValueError)"

text \<open>
  \<^verbatim>\<open>Image.resize(size, filter)\<close>: PIL returns a copy when the size asked is the image's
  own, and resamples otherwise.
\<close>

definition resize :: "library \<Rightarrow> pil_image \<Rightarrow> int \<times> int \<Rightarrow> bool \<Rightarrow> error + pil_image" where
  "resize lib im sz antialiasing =
     (if im_size im = sz then Inr im else resample lib im sz antialiasing)"

text \<open>\<^verbatim>\<open>Image.tobytes()\<close>: the pixels in row order, the bands of a pixel side by side.\<close>

definition tobytes :: "pil_image \<Rightarrow> byte list" where
  "tobytes im = concat (map (pixel_at im) [0..<npixels im])"

fun chunks :: "nat \<Rightarrow> 'a list \<Rightarrow> 'a list list" where
  "chunks n xs = (if n = 0 \<or> xs = [] then [] else take n xs # chunks n (drop n xs))"

declare chunks.simps [simp del]

text \<open>
  \<^verbatim>\<open>pygame.image.fromstring(data, size, format)\<close>: ValueError for a width or height
  below 1, for a format it does not know, and for data whose length is not that of the
  size in this format.
\<close>

definition fromstring :: "byte list \<Rightarrow> int \<times> int \<Rightarrow> string \<Rightarrow> error + surface" where
  "fromstring data sz fmt =
     (if fst sz < 1 \<or> snd sz < 1 then Inl ValueError
      else if fmt \<notin> set [''P'', ''RGB'', ''RGBX'', ''RGBA'', ''ARGB''] then Inl ValueError
      else
        let bpp = (if fmt = ''P'' then 1 else if fmt = ''RGB'' then 3 else 4 :: nat) in
        if int (length data) \<noteq> fst sz * snd sz * int bpp then Inl ValueError
        else Inr \<lparr>surf_size = sz, surf_format = fmt,
                  surf_rows = chunks (nat (fst sz)) (chunks bpp data)\<rparr>)"

text \<open>\<^verbatim>\<open>pygame.transform.flip(surface, xbool, ybool)\<close>.\<close>

definition flip :: "surface \<Rightarrow> bool \<Rightarrow> bool \<Rightarrow> surface" where
  "flip s xbool ybool =
     s\<lparr>surf_rows :=
         (if ybool then rev else id) (map (if xbool then rev else id) (surf_rows s))\<rparr>"

subsection \<open>Recolouring a pictogram\<close>

text \<open>
  \<^verbatim>\<open>set_picto_color(picto_pil_image, color, bg_color=None)\<close>. A colour tuple is never
  falsy, so \<^verbatim>\<open>not bg_color\<close> holds for \<^verbatim>\<open>None\<close> only. Unpacking \<^verbatim>\<open>split()\<close> into four
  names raises ValueError unless the image has exactly four bands.
\<close>

definition set_picto_color ::
  "library \<Rightarrow> pil_image \<Rightarrow> color \<Rightarrow> color option \<Rightarrow> error + pil_image" where
  "set_picto_color lib picto_pil_image color bg_color =
     (let bg_color1 =
            (case bg_color of
               None \<Rightarrow> (case color of (r, g, b) \<Rightarrow> (\<bar>r - 255\<bar>, \<bar>g - 255\<bar>, \<bar>b - 255\<bar>))
             | Some c \<Rightarrow> c)
      in case im_split picto_pil_image of
           [_, _, _, alpha] \<Rightarrow>
             (let gray_pil_image = convert_L lib picto_pil_image in
              bind_err (colorize lib gray_pil_image bg_color1 color)
                (\<lambda>colorize_pil_image. putalpha colorize_pil_image alpha))
         | _ \<Rightarrow> Inl ValueError)"

subsection \<open>Loading an image\<close>

text \<open>\<^verbatim>\<open>posixpath.join\<close> of two components.\<close>

definition osp_join :: "string \<Rightarrow> string \<Rightarrow> string" where
  "osp_join a b =
     (if b \<noteq> [] \<and> hd b = CHR ''/'' then b
      else if a = [] \<or> last a = CHR ''/'' then a @ b
      else a @ ''/'' @ b)"

definition get_filename :: "library \<Rightarrow> string \<Rightarrow> string" where
  "get_filename lib name = osp_join (osp_join (package_dir lib) ''assets'') name"

text \<open>
  \<^verbatim>\<open>get_pygame_image(name, size=None, antialiasing=True, hflip=False, vflip=False,
  crop=False, angle=0, color=(255, 255, 255), bg_color=None)\<close>. A size tuple is never
  falsy, so \<^verbatim>\<open>not size\<close> holds for \<^verbatim>\<open>None\<close> only (\<open>size\<close> being a constant of HOL,
  the argument is \<open>sz\<close> and its value \<open>size1\<close>). The flip and the rotation come after
  the \<^verbatim>\<open>if\<close>/\<^verbatim>\<open>else\<close> on the size and apply to both branches.
\<close>

definition get_pygame_image ::
  "library \<Rightarrow> string \<Rightarrow> (int \<times> int) option \<Rightarrow> bool \<Rightarrow> bool \<Rightarrow> bool \<Rightarrow> bool \<Rightarrow> int \<Rightarrow>
   color \<Rightarrow> color option \<Rightarrow> error + surface" where
  "get_pygame_image lib name sz antialiasing hflip vflip crop angle color bg_color =
     (let path = get_filename lib name in
      bind_err
        (case sz of
           None \<Rightarrow> image_load lib path
         | Some size1 \<Rightarrow>
             bind_err
               (if isfile lib path then Image_open lib path
                else Image_new ''RGBA'' size1 [0, 0, 0, 0])
             (\<lambda>pil_image0.
             bind_err
               (if color \<noteq> (255, 255, 255)
                then set_picto_color lib pil_image0 color bg_color
                else Inr pil_image0)
             (\<lambda>pil_image1.
             bind_err
               (if crop
                then bind_err (new_size_by_croping_ratio lib (im_size pil_image1) size1)
                       (crop_region lib pil_image1)
                else Inr pil_image1)
             (\<lambda>pil_image2.
             bind_err (new_size_keep_aspect_ratio lib (im_size pil_image2) size1)
             (\<lambda>new_size.
             bind_err (resize lib pil_image2 new_size antialiasing)
             (\<lambda>pil_image3.
               fromstring (tobytes pil_image3) (im_size pil_image3) (mode pil_image3)))))))
        (\<lambda>image0.
           let image1 = (if hflip \<or> vflip then flip image0 hflip vflip else image0);
               image2 = (if angle \<noteq> 0 then rotate lib image1 angle else image1)
           in Inr image2))"


subsection \<open>Surfaces of one colour\<close>

text \<open>An RGBA image all of whose pixels have the band values \<open>p\<close>.\<close>

definition flat_image :: "int \<times> int \<Rightarrow> byte list \<Rightarrow> pil_image" where
  "flat_image sz p =
     \<lparr>mode = ''RGBA'', im_size = sz, bands = map (replicate (nat (fst sz * snd sz))) p\<rparr>"

text \<open>A surface with an alpha channel that is zero at every pixel.\<close>

definition fully_transparent :: "surface \<Rightarrow> bool" where
  "fully_transparent s =
     (surf_format s = ''RGBA'' \<and>
      (\<forall>row \<in> set (surf_rows s). \<forall>p \<in> set row. length p = 4 \<and> p ! 3 = 0))"

subsection \<open>A small library for the examples\<close>

text \<open>
  One asset, \<^verbatim>\<open>camera.png\<close>, two pixels wide and one high: an opaque white pixel and a
  transparent black one.
\<close>

definition example_picto :: pil_image where
  "example_picto =
     \<lparr>mode = ''RGBA'', im_size = (2, 1), bands = [[255, 0], [255, 0], [255, 0], [255, 0]]\<rparr>"

definition example_surface :: surface where
  "example_surface =
     \<lparr>surf_size = (2, 1), surf_format = ''RGBA'',
      surf_rows = [[[255, 255, 255, 255], [0, 0, 0, 0]]]\<rparr>"

text \<open>
  Modelled from the spec: the two functions of \<^verbatim>\<open>pibooth.pictures.sizing\<close>, which is not
  among the sources. The first gives the box of the largest centred rectangle of the
  original that has the aspect ratio of the target; the second the largest size of the
  original's aspect ratio that fits the target.
\<close>

definition example_croping_ratio ::
  "int \<times> int \<Rightarrow> int \<times> int \<Rightarrow> error + int \<times> int \<times> int \<times> int" where
  "example_croping_ratio original target =
     (case (original, target) of ((ox, oy), (tx, ty)) \<Rightarrow>
        if tx = 0 \<or> ty = 0 then Inl ZeroDivisionError
        else if ox * ty < tx * oy
        then (let nh = ox * ty div tx in Inr (0, (oy - nh) div 2, ox, (oy - nh) div 2 + nh))
        else (let nw = oy * tx div ty in Inr ((ox - nw) div 2, 0, (ox - nw) div 2 + nw, oy)))"

definition example_keep_aspect_ratio :: "int \<times> int \<Rightarrow> int \<times> int \<Rightarrow> error + int \<times> int" where
  "example_keep_aspect_ratio original target =
     (case (original, target) of ((ox, oy), (tx, ty)) \<Rightarrow>
        if ox = 0 \<or> oy = 0 then Inl ZeroDivisionError
        else if ox * ty < tx * oy then Inr (ox * ty div oy, ty)
        else if tx * oy < ox * ty then Inr (tx, oy * tx div ox)
        else Inr (tx, ty))"

text \<open>
  The luma and the colour table are those of PIL; cropping copies the pixels of the box;
  resampling takes the nearest pixel; rotation is done for quarter turns only (other
  angles leave the surface as it is).
\<close>

definition example_crop :: "pil_image \<Rightarrow> int \<times> int \<times> int \<times> int \<Rightarrow> error + pil_image" where
  "example_crop im box =
     (case box of (l, t, r, b) \<Rightarrow>
        if r < l \<or> b < t then Inl ValueError
        else Inr \<lparr>mode = mode im, im_size = (r - l, b - t),
                  bands = map (\<lambda>bd. concat (map (\<lambda>y. map (\<lambda>x.
                              let sx = int x + l; sy = int y + t in
                              if 0 \<le> sx \<and> sx < fst (im_size im) \<and> 0 \<le> sy \<and> sy < snd (im_size im)
                              then bd ! nat (sy * fst (im_size im) + sx) else 0)
                            [0..<nat (r - l)]) [0..<nat (b - t)])) (bands im)\<rparr>)"

definition example_resample :: "pil_image \<Rightarrow> int \<times> int \<Rightarrow> bool \<Rightarrow> error + pil_image" where
  "example_resample im sz antialiasing =
     (case (im_size im, sz) of ((ow, oh), (nw, nh)) \<Rightarrow>
        if nw < 1 \<or> nh < 1 \<or> ow < 1 \<or> oh < 1 then Inl ValueError
        else Inr \<lparr>mode = mode im, im_size = sz,
                  bands = map (\<lambda>bd. concat (map (\<lambda>y. map (\<lambda>x.
                              bd ! nat ((int y * oh div nh) * ow + int x * ow div nw))
                            [0..<nat nw]) [0..<nat nh])) (bands im)\<rparr>)"

definition example_rotate :: "surface \<Rightarrow> int \<Rightarrow> surface" where
  "example_rotate s angle =
     (if angle mod 360 = 90
      then s\<lparr>surf_size := (snd (surf_size s), fst (surf_size s)),
              surf_rows := rev (transpose (surf_rows s))\<rparr>
      else if angle mod 360 = 180
      then s\<lparr>surf_rows := rev (map rev (surf_rows s))\<rparr>
      else if angle mod 360 = 270
      then s\<lparr>surf_size := (snd (surf_size s), fst (surf_size s)),
              surf_rows := map rev (transpose (surf_rows s))\<rparr>
      else s)"

definition example_library :: library where
  "example_library =
     \<lparr>package_dir = ''/pibooth/pictures'',
      isfile = (\<lambda>p. p = ''/pibooth/pictures/assets/camera.png''),
      image_load = (\<lambda>p. if p = ''/pibooth/pictures/assets/camera.png''
                          then Inr example_surface else Inl PygameError),
      Image_open = (\<lambda>p. if p = ''/pibooth/pictures/assets/camera.png''
                          then Inr example_picto else Inl OSError),
      luma = (\<lambda>p. case p of
                     r # g # b # _ \<Rightarrow>
                       word_of_nat ((unat r * 19595 + unat g * 38470 + unat b * 7471 + 32768)
                                    div 65536)
                   | v # _ \<Rightarrow> v
                   | [] \<Rightarrow> 0),
      colorize_lut = (\<lambda>black white v.
                        case (black, white) of ((r0, g0, b0), (r1, g1, b1)) \<Rightarrow>
                          let f = (\<lambda>c0 c1. word_of_int
                                     (if v = 255 then c1 else c0 + uint v * (c1 - c0) div 255))
                          in (f r0 r1, f g0 g1, f b0 b1)),
      crop_region = example_crop,
      resample = example_resample,
      rotate = example_rotate,
      new_size_by_croping_ratio = example_croping_ratio,
      new_size_keep_aspect_ratio = example_keep_aspect_ratio\<rparr>"

section \<open>Properties\<close>

lemma orientation_names_distinct:
  "PORTRAIT \<noteq> LANDSCAPE" "AUTO \<noteq> PORTRAIT" "AUTO \<noteq> LANDSCAPE"
  "LANDSCAPE \<noteq> PORTRAIT" "PORTRAIT \<noteq> AUTO" "LANDSCAPE \<noteq> AUTO"
  by (simp_all add: PORTRAIT_def LANDSCAPE_def AUTO_def)

text \<open>
  Claim C1. With one or four captures the orientation is that of the first capture:
  PORTRAIT exactly when its width is below its height, LANDSCAPE otherwise. With two or
  three captures it is the opposite one: LANDSCAPE exactly when the first capture's width
  is below its height, PORTRAIT otherwise.
\<close>

theorem get_best_orientation_table:
  "(length (c # rest) = 1 \<or> length (c # rest) = 4 \<longrightarrow>
      (get_best_orientation (c # rest) = Inr PORTRAIT \<longleftrightarrow> fst (im_size c) < snd (im_size c)) \<and>
      (get_best_orientation (c # rest) = Inr LANDSCAPE \<longleftrightarrow> \<not> fst (im_size c) < snd (im_size c))) \<and>
   (length (c # rest) = 2 \<or> length (c # rest) = 3 \<longrightarrow>
      (get_best_orientation (c # rest) = Inr LANDSCAPE \<longleftrightarrow> fst (im_size c) < snd (im_size c)) \<and>
      (get_best_orientation (c # rest) = Inr PORTRAIT \<longleftrightarrow> \<not> fst (im_size c) < snd (im_size c)))"
  by (auto simp add: get_best_orientation_def orientation_names_distinct)

theorem get_best_orientation_table_witness:
  "length [\<lparr>mode = ''RGB'', im_size = (2, 3), bands = []\<rparr>,
           \<lparr>mode = ''RGB'', im_size = (2, 3), bands = []\<rparr>] = 2 \<and>
   get_best_orientation [\<lparr>mode = ''RGB'', im_size = (2, 3), bands = []\<rparr>,
                         \<lparr>mode = ''RGB'', im_size = (2, 3), bands = []\<rparr>] = Inr LANDSCAPE \<and>
   length [\<lparr>mode = ''RGB'', im_size = (2, 3), bands = []\<rparr>] = 1 \<and>
   get_best_orientation [\<lparr>mode = ''RGB'', im_size = (2, 3), bands = []\<rparr>] = Inr PORTRAIT"
  using get_best_orientation_table
          [of "\<lparr>mode = ''RGB'', im_size = (2, 3), bands = []\<rparr>"
              "[\<lparr>mode = ''RGB'', im_size = (2, 3), bands = []\<rparr>]"]
        get_best_orientation_table
          [of "\<lparr>mode = ''RGB'', im_size = (2, 3), bands = []\<rparr>" "[]"]
  by simp

text \<open>
  Claim C2. Four captures whose first one is square, orientation left to AUTO, paper
  format (4, 6): the orientation resolves to LANDSCAPE, and the maker is constructed
  with width 3600, height 2400 and the four captures in the order given, whichever of
  the two makers is chosen.
\<close>

theorem get_picture_maker_four_square:
  assumes "fst (im_size c1) = snd (im_size c1)"
  shows "get_best_orientation [c1, c2, c3, c4] = Inr LANDSCAPE \<and>
         get_picture_maker cv2 [c1, c2, c3, c4] AUTO (4, 6) force_pil =
           Inr (if \<not> cv2 \<or> force_pil
                then PilPictureMaker 3600 2400 [c1, c2, c3, c4]
                else OpenCvPictureMaker 3600 2400 [c1, c2, c3, c4])"
  using assms
  by (simp add: get_picture_maker_def get_best_orientation_def orientation_names_distinct)

theorem get_picture_maker_four_square_witness:
  "fst (im_size \<lparr>mode = ''RGB'', im_size = (5, 5), bands = []\<rparr>) =
     snd (im_size \<lparr>mode = ''RGB'', im_size = (5, 5), bands = []\<rparr>) \<and>
   get_picture_maker True
     [\<lparr>mode = ''RGB'', im_size = (5, 5), bands = []\<rparr>,
      \<lparr>mode = ''RGB'', im_size = (1, 5), bands = []\<rparr>,
      \<lparr>mode = ''RGB'', im_size = (5, 2), bands = []\<rparr>,
      \<lparr>mode = ''RGB'', im_size = (7, 7), bands = []\<rparr>] AUTO (4, 6) False =
     Inr (OpenCvPictureMaker 3600 2400
       [\<lparr>mode = ''RGB'', im_size = (5, 5), bands = []\<rparr>,
        \<lparr>mode = ''RGB'', im_size = (1, 5), bands = []\<rparr>,
        \<lparr>mode = ''RGB'', im_size = (5, 2), bands = []\<rparr>,
        \<lparr>mode = ''RGB'', im_size = (7, 7), bands = []\<rparr>])"
  using get_picture_maker_four_square
          [of "\<lparr>mode = ''RGB'', im_size = (5, 5), bands = []\<rparr>" 
              "\<lparr>mode = ''RGB'', im_size = (1, 5), bands = []\<rparr>"
              "\<lparr>mode = ''RGB'', im_size = (5, 2), bands = []\<rparr>"
              "\<lparr>mode = ''RGB'', im_size = (7, 7), bands = []\<rparr>" True False]
  by simp

text \<open>
  Claim C3, at the empty list. The claim asks for the error of the final \<^verbatim>\<open>else\<close>
  (ValueError) at every length outside 1..4. On the empty list the function raises
  IndexError instead, from \<^verbatim>\<open>captures[0]\<close> in its first statement.
\<close>

theorem get_best_orientation_empty:
  "get_best_orientation [] = Inl IndexError"
  by (simp add: get_best_orientation_def)

text \<open>
  \<^verbatim>\<open>get_picture_maker\<close> passes that IndexError on. Above four captures the function
  does raise ValueError, and the caller passes it on as well.
\<close>

lemma get_picture_maker_empty:
  "get_picture_maker cv2 [] AUTO paper_format force_pil = Inl IndexError"
  by (simp add: get_picture_maker_def get_best_orientation_def)

lemma get_best_orientation_too_many:
  "4 < length captures \<Longrightarrow> get_best_orientation captures = Inl ValueError"
  by (cases captures) (auto simp add: get_best_orientation_def Let_def)

lemma get_picture_maker_too_many:
  "4 < length captures \<Longrightarrow>
   get_picture_maker cv2 captures AUTO paper_format force_pil = Inl ValueError"
  by (simp add: get_picture_maker_def get_best_orientation_too_many)

text \<open>
  Claim C4. The maker class depends on the two flags only: a returned maker is the
  OpenCV one when \<^verbatim>\<open>maker.cv2\<close> is available and \<^verbatim>\<open>force_pil\<close> is not set, and the PIL
  one in every other case; whether the call raises, and what, does not depend on the
  flags at all.
\<close>

theorem get_picture_maker_backend:
  "(\<forall>e. get_picture_maker cv2 captures orientation paper_format force_pil = Inl e \<longrightarrow>
        get_picture_maker cv2' captures orientation paper_format force_pil' = Inl e) \<and>
   (\<forall>m. get_picture_maker cv2 captures orientation paper_format force_pil = Inr m \<longrightarrow>
        (\<exists>w h. m = (if cv2 \<and> \<not> force_pil
                     then OpenCvPictureMaker w h captures
                     else PilPictureMaker w h captures)))"
  by (auto simp add: get_picture_maker_def Let_def split: sum.splits if_splits)

theorem get_picture_maker_backend_witness:
  "get_picture_maker True [] AUTO (4, 6) False = Inl IndexError \<and>
   get_picture_maker False [] AUTO (4, 6) True = Inl IndexError \<and>
   get_picture_maker True [\<lparr>mode = ''RGB'', im_size = (5, 5), bands = []\<rparr>]
     PORTRAIT (4, 6) True =
     Inr (PilPictureMaker 2400 3600 [\<lparr>mode = ''RGB'', im_size = (5, 5), bands = []\<rparr>]) \<and>
   (\<exists>w h. PilPictureMaker 2400 3600 [\<lparr>mode = ''RGB'', im_size = (5, 5), bands = []\<rparr>] =
      (if True \<and> \<not> True
       then OpenCvPictureMaker w h [\<lparr>mode = ''RGB'', im_size = (5, 5), bands = []\<rparr>]
       else PilPictureMaker w h [\<lparr>mode = ''RGB'', im_size = (5, 5), bands = []\<rparr>]))"
proof -
  have r: "get_picture_maker True [\<lparr>mode = ''RGB'', im_size = (5, 5), bands = []\<rparr>]
             PORTRAIT (4, 6) True =
           Inr (PilPictureMaker 2400 3600 [\<lparr>mode = ''RGB'', im_size = (5, 5), bands = []\<rparr>])"
    by (simp add: get_picture_maker_def orientation_names_distinct)
  have e: "get_picture_maker True [] AUTO (4, 6) False = Inl IndexError"
    by (simp add: get_picture_maker_def get_best_orientation_def)
  from get_picture_maker_backend
         [of True "[\<lparr>mode = ''RGB'', im_size = (5, 5), bands = []\<rparr>]" PORTRAIT "(4, 6)" True]
       get_picture_maker_backend [of True "[]" AUTO "(4, 6)" False False True]
       r e
  show ?thesis by blast
qed

subsection \<open>Recolouring\<close>

lemma length_four: "length xs = 4 \<Longrightarrow> \<exists>a b c d. xs = [a, b, c, d]"
  by (auto simp add: length_Suc_conv numeral_eq_Suc)

text \<open>
  Claim C5. For a foreground colour with every channel between 0 and 255 and no
  background colour given, the colour passed to \<^verbatim>\<open>colorize\<close> as \<^verbatim>\<open>black\<close> is the
  channel-wise complement (255 - r, 255 - g, 255 - b): the call behaves as the call with
  that background given, and on a four-band image it is the colorize call written out.
\<close>

theorem set_picto_color_default_bg:
  assumes "0 \<le> r" "r \<le> 255" "0 \<le> g" "g \<le> 255" "0 \<le> b" "b \<le> 255"
  shows "set_picto_color lib im (r, g, b) None =
           set_picto_color lib im (r, g, b) (Some (255 - r, 255 - g, 255 - b)) \<and>
         (\<forall>b1 b2 b3 alpha. im_split im = [b1, b2, b3, alpha] \<longrightarrow>
            set_picto_color lib im (r, g, b) None =
              bind_err (colorize lib (convert_L lib im) (255 - r, 255 - g, 255 - b) (r, g, b))
                (\<lambda>colorize_pil_image. putalpha colorize_pil_image alpha))"
proof -
  have "\<bar>r - 255\<bar> = 255 - r" "\<bar>g - 255\<bar> = 255 - g" "\<bar>b - 255\<bar> = 255 - b"
    using assms by simp_all
  then show ?thesis
    by (simp add: set_picto_color_def)
qed

theorem set_picto_color_default_bg_witness:
  "(0::int) \<le> 10 \<and> (10::int) \<le> 255 \<and> (0::int) \<le> 200 \<and> (200::int) \<le> 255 \<and>
   (0::int) \<le> 255 \<and> (255::int) \<le> 255 \<and>
   set_picto_color example_library example_picto (10, 200, 255) None =
     set_picto_color example_library example_picto (10, 200, 255) (Some (245, 55, 0)) \<and>
   im_split example_picto = [[255, 0], [255, 0], [255, 0], [255, 0]] \<and>
   set_picto_color example_library example_picto (10, 200, 255) None =
     bind_err (colorize example_library (convert_L example_library example_picto)
                 (245, 55, 0) (10, 200, 255))
       (\<lambda>colorize_pil_image. putalpha colorize_pil_image [255, 0])"
proof -
  have sp: "im_split example_picto = [[255, 0], [255, 0], [255, 0], [255, 0]]"
    by (simp add: im_split_def example_picto_def)
  note inst = set_picto_color_default_bg [of 10 200 255 example_library example_picto, simplified]
  from inst sp have
    "set_picto_color example_library example_picto (10, 200, 255) None =
       set_picto_color example_library example_picto (10, 200, 255) (Some (245, 55, 0))"
    "set_picto_color example_library example_picto (10, 200, 255) None =
       bind_err (colorize example_library (convert_L example_library example_picto)
                   (245, 55, 0) (10, 200, 255))
         (\<lambda>colorize_pil_image. putalpha colorize_pil_image [255, 0])"
    by metis+
  with sp show ?thesis by simp
qed

text \<open>
  Claim C6. On an RGBA image, whatever the two colours, the recoloured image is RGBA, of
  the same size, and its alpha band is the alpha band of the input, byte for byte.
\<close>

theorem set_picto_color_alpha:
  assumes "mode im = ''RGBA''" and "length (bands im) = 4"
  shows "\<exists>out. set_picto_color lib im color bg_color = Inr out \<and>
           mode out = ''RGBA'' \<and> im_size out = im_size im \<and>
           length (bands out) = 4 \<and> bands out ! 3 = bands im ! 3"
proof -
  from assms(2) obtain b1 b2 b3 alpha where bs: "bands im = [b1, b2, b3, alpha]"
    using length_four by blast
  show ?thesis
    by (simp add: set_picto_color_def im_split_def bs convert_L_def colorize_def
        putalpha_def bind_err_def Let_def)
qed

theorem set_picto_color_alpha_witness:
  "mode example_picto = ''RGBA'' \<and> length (bands example_picto) = 4 \<and>
   (\<exists>out. set_picto_color example_library example_picto (255, 0, 0) (Some (0, 0, 255)) = Inr out \<and>
      mode out = ''RGBA'' \<and> im_size out = (2, 1) \<and>
      length (bands out) = 4 \<and> bands out ! 3 = [255, 0])"
  using set_picto_color_alpha [of example_picto example_library "(255, 0, 0)" "Some (0, 0, 255)"]
  by (simp add: example_picto_def)

subsection \<open>Loading\<close>


lemma bind_err_Inl:
  "bind_err m f = Inl e \<Longrightarrow> m = Inl e \<or> (\<exists>x. m = Inr x \<and> f x = Inl e)"
  by (cases m) (simp_all add: bind_err_def)

lemma chunks_concat_replicate:
  "length p = k \<Longrightarrow> 0 < k \<Longrightarrow> chunks k (concat (replicate n p)) = replicate n p"
proof (induction n)
  case 0
  then show ?case by (simp add: chunks.simps)
next
  case (Suc n)
  then have "p \<noteq> []" by auto
  with Suc show ?case
    by (subst chunks.simps) simp
qed

lemma chunks_replicate:
  "0 < w \<Longrightarrow> chunks w (replicate (w * h) x) = replicate h (replicate w x)"
proof (induction h)
  case 0
  then show ?case by (simp add: chunks.simps)
next
  case (Suc h)
  have front: "replicate (w * Suc h) x = replicate w x @ replicate (w * h) x"
    by (simp add: replicate_add [symmetric])
  from Suc show ?case
    by (subst chunks.simps) (simp add: front)
qed

lemma pixel_at_flat:
  "i < nat (w * h) \<Longrightarrow> pixel_at (flat_image (w, h) p) i = p"
  by (simp add: pixel_at_def flat_image_def map_idI)

lemma tobytes_flat:
  "tobytes (flat_image (w, h) p) = concat (replicate (nat (w * h)) p)"
proof -
  have "map (pixel_at (flat_image (w, h) p)) [0..<nat (w * h)] = map (\<lambda>_. p) [0..<nat (w * h)]"
    by (rule map_cong) (simp_all add: pixel_at_flat)
  then show ?thesis
    by (simp add: tobytes_def npixels_def flat_image_def map_replicate_const)
qed

lemma fromstring_flat:
  assumes "1 \<le> w" "1 \<le> h" "length p = 4"
  shows "fromstring (tobytes (flat_image (w, h) p)) (w, h) ''RGBA'' =
         Inr \<lparr>surf_size = (w, h), surf_format = ''RGBA'',
              surf_rows = replicate (nat h) (replicate (nat w) p)\<rparr>"
proof -
  have n: "nat (w * h) = nat w * nat h"
    using assms by (simp add: nat_mult_distrib)
  have len: "int (length (tobytes (flat_image (w, h) p))) = w * h * 4"
    using assms by (simp add: tobytes_flat length_concat sum_list_replicate)
  have rows: "chunks (nat w) (chunks 4 (tobytes (flat_image (w, h) p))) =
              replicate (nat h) (replicate (nat w) p)"
    using assms by (simp add: tobytes_flat chunks_concat_replicate n chunks_replicate)
  show ?thesis
    using assms len rows by (simp add: fromstring_def)
qed

lemma flip_flat:
  "flip \<lparr>surf_size = sz, surf_format = f, surf_rows = replicate m (replicate n p)\<rparr> x y =
   \<lparr>surf_size = sz, surf_format = f, surf_rows = replicate m (replicate n p)\<rparr>"
  by (simp add: flip_def)

lemma Image_new_flat:
  "0 \<le> w \<Longrightarrow> 0 \<le> h \<Longrightarrow>
   Image_new ''RGBA'' (w, h) [0, 0, 0, 0] = Inr (flat_image (w, h) [0, 0, 0, 0])"
  by (simp add: Image_new_def flat_image_def)

text \<open>
  Recolouring a transparent image of one colour gives a transparent image of one colour:
  every pixel has the same luma, hence the same entry of the colour table.
\<close>

lemma set_picto_color_flat:
  "\<exists>r g b. set_picto_color lib (flat_image (w, h) [0, 0, 0, 0]) color bg_color =
     Inr (flat_image (w, h) [r, g, b, 0])"
proof -
  let ?im = "flat_image (w, h) [0, 0, 0, 0]"
  let ?n = "nat (w * h)"
  have "map (\<lambda>i. luma lib (pixel_at ?im i)) [0..<?n] = map (\<lambda>_. luma lib [0, 0, 0, 0]) [0..<?n]"
    by (rule map_cong) (simp_all add: pixel_at_flat)
  then have gray: "convert_L lib ?im =
      \<lparr>mode = ''L'', im_size = (w, h), bands = [replicate ?n (luma lib [0, 0, 0, 0])]\<rparr>"
    by (simp add: convert_L_def npixels_def flat_image_def map_replicate_const)
  have sp: "im_split ?im = [replicate ?n 0, replicate ?n 0, replicate ?n 0, replicate ?n 0]"
    by (simp add: im_split_def flat_image_def)
  have "\<exists>r g b. bind_err (colorize lib (convert_L lib ?im) bg color)
                  (\<lambda>c. putalpha c (replicate ?n 0)) = Inr (flat_image (w, h) [r, g, b, 0])" for bg
    unfolding gray by (simp add: colorize_def putalpha_def bind_err_def Let_def flat_image_def)
  then show ?thesis
    by (simp add: set_picto_color_def sp Let_def)
qed

lemma bind_err_simps:
  "bind_err (Inr x) f = f x" "bind_err (Inl e) f = Inl e"
  by (simp_all add: bind_err_def)

text \<open>
  The call on a missing asset, step by step: the placeholder is an image of one colour,
  so is the recoloured one (pixel \<open>p\<close>); cropping to the whole image and resizing to the
  size it has leave it alone; the surface made of it is the same after any flip.
\<close>

lemma get_pygame_image_flat_pixel:
  assumes missing: "\<not> isfile lib (get_filename lib name)"
      and w: "1 \<le> w" and h: "1 \<le> h"
      and keep: "new_size_keep_aspect_ratio lib (w, h) (w, h) = Inr (w, h)"
      and whole: "crop \<Longrightarrow> \<exists>box. new_size_by_croping_ratio lib (w, h) (w, h) = Inr box \<and>
                     (\<forall>q. crop_region lib (flat_image (w, h) q) box = Inr (flat_image (w, h) q))"
      and recol: "(if color \<noteq> (255, 255, 255)
                   then set_picto_color lib (flat_image (w, h) [0, 0, 0, 0]) color bg_color
                   else Inr (flat_image (w, h) [0, 0, 0, 0])) = Inr (flat_image (w, h) p)"
      and p: "length p = 4"
  shows "get_pygame_image lib name (Some (w, h)) antialiasing hflip vflip crop angle
           color bg_color =
         Inr (let s = \<lparr>surf_size = (w, h), surf_format = ''RGBA'',
                         surf_rows = replicate (nat h) (replicate (nat w) p)\<rparr>
              in if angle \<noteq> 0 then rotate lib s angle else s)"
proof -
  have new: "Image_new ''RGBA'' (w, h) [0, 0, 0, 0] = Inr (flat_image (w, h) [0, 0, 0, 0])"
    using w h by (simp add: Image_new_flat)
  have sz: "im_size (flat_image (w, h) p) = (w, h)"
    and md: "mode (flat_image (w, h) p) = ''RGBA''"
    by (simp_all add: flat_image_def)
  have cr: "bind_err (new_size_by_croping_ratio lib (w, h) (w, h))
              (crop_region lib (flat_image (w, h) p)) = Inr (flat_image (w, h) p)" if crop
  proof -
    from whole that obtain box where "new_size_by_croping_ratio lib (w, h) (w, h) = Inr box"
      and "crop_region lib (flat_image (w, h) p) box = Inr (flat_image (w, h) p)"
      by blast
    then show ?thesis by (simp add: bind_err_simps)
  qed
  have rs: "resize lib (flat_image (w, h) p) (w, h) antialiasing = Inr (flat_image (w, h) p)"
    by (simp add: resize_def sz)
  have fs: "fromstring (tobytes (flat_image (w, h) p)) (w, h) ''RGBA'' =
            Inr \<lparr>surf_size = (w, h), surf_format = ''RGBA'',
                 surf_rows = replicate (nat h) (replicate (nat w) p)\<rparr>"
    using w h p by (simp add: fromstring_flat)
  show ?thesis
    unfolding get_pygame_image_def
    by (simp add: missing new recol bind_err_simps keep sz md cr rs fs flip_flat Let_def)
qed

lemma get_pygame_image_flat:
  assumes "\<not> isfile lib (get_filename lib name)"
      and "1 \<le> w" and "1 \<le> h"
      and "new_size_keep_aspect_ratio lib (w, h) (w, h) = Inr (w, h)"
      and "crop \<Longrightarrow> \<exists>box. new_size_by_croping_ratio lib (w, h) (w, h) = Inr box \<and>
             (\<forall>q. crop_region lib (flat_image (w, h) q) box = Inr (flat_image (w, h) q))"
  shows "\<exists>r g b. get_pygame_image lib name (Some (w, h)) antialiasing hflip vflip crop angle
                    color bg_color =
           Inr (let s = \<lparr>surf_size = (w, h), surf_format = ''RGBA'',
                           surf_rows = replicate (nat h) (replicate (nat w) [r, g, b, 0])\<rparr>
                in if angle \<noteq> 0 then rotate lib s angle else s)"
proof -
  obtain r g b where recol:
    "(if color \<noteq> (255, 255, 255)
      then set_picto_color lib (flat_image (w, h) [0, 0, 0, 0]) color bg_color
      else Inr (flat_image (w, h) [0, 0, 0, 0])) = Inr (flat_image (w, h) [r, g, b, 0])"
    using set_picto_color_flat [of lib w h color bg_color]
    by (cases "color = (255, 255, 255)") auto
  from get_pygame_image_flat_pixel [OF assms recol] show ?thesis
    by auto
qed

lemma example_missing:
  "\<not> isfile example_library (get_filename example_library ''missing.png'')"
  by (simp add: example_library_def get_filename_def osp_join_def)

lemma example_keep_same:
  "new_size_keep_aspect_ratio example_library (3, 2) (3, 2) = Inr (3, 2)"
  by (simp add: example_library_def example_keep_aspect_ratio_def)

lemma example_crop_whole:
  "\<exists>box. new_size_by_croping_ratio example_library (3, 2) (3, 2) = Inr box \<and>
     (\<forall>q. crop_region example_library (flat_image (3, 2) q) box = Inr (flat_image (3, 2) q))"
proof -
  have box: "new_size_by_croping_ratio example_library (3, 2) (3, 2) = Inr (0, 0, 3, 2)"
    by (simp add: example_library_def example_croping_ratio_def)
  have up: "[0..<3] = [0, 1, 2]" "[0..<2] = [0, Suc 0]"
    by (simp_all add: numeral_eq_Suc upt_conv_Cons del: upt_Suc)
  have rep: "replicate 6 c = [c, c, c, c, c, c]" for c :: byte
    by (simp add: numeral_eq_Suc)
  have "crop_region example_library (flat_image (3, 2) q) (0, 0, 3, 2) =
        Inr (flat_image (3, 2) q)" for q
    by (simp add: example_library_def example_crop_def flat_image_def Let_def up)
       (simp add: rep)
  with box show ?thesis by blast
qed

text \<open>
  Claim C7, as stated, fails in two ways. The rotation of lines 72-73 is applied to the
  placeholder too: for the size (2, 1) and the angle 90 the surface returned is one pixel
  wide and two high, not of the size asked. And a target size is not always accepted: for
  the size (0, 0) the call raises.
\<close>

theorem get_pygame_image_missing_asset_counterexample:
  "get_pygame_image example_library ''missing.png'' (Some (2, 1)) True False False False 90
     (255, 255, 255) None =
     Inr \<lparr>surf_size = (1, 2), surf_format = ''RGBA'',
          surf_rows = [[[0, 0, 0, 0]], [[0, 0, 0, 0]]]\<rparr> \<and>
   get_pygame_image example_library ''missing.png'' (Some (0, 0)) True False False False 0
     (255, 255, 255) None = Inl ZeroDivisionError"
proof -
  have keep: "new_size_keep_aspect_ratio example_library (2, 1) (2, 1) = Inr (2, 1)"
    by (simp add: example_library_def example_keep_aspect_ratio_def)
  have "get_pygame_image example_library ''missing.png'' (Some (2, 1)) True False False False 90
          (255, 255, 255) None =
        Inr (let s = \<lparr>surf_size = (2, 1), surf_format = ''RGBA'',
                        surf_rows = replicate (nat 1) (replicate (nat 2) [0, 0, 0, 0])\<rparr>
             in if (90::int) \<noteq> 0 then rotate example_library s 90 else s)"
    by (rule get_pygame_image_flat_pixel [OF example_missing _ _ keep]) simp_all
  moreover have "replicate (nat 1) (replicate (nat 2) [0, 0, 0, 0 :: byte]) =
                 [[[0, 0, 0, 0], [0, 0, 0, 0]]]"
    by (simp add: numeral_eq_Suc)
  ultimately have turned:
    "get_pygame_image example_library ''missing.png'' (Some (2, 1)) True False False False 90
       (255, 255, 255) None =
     Inr \<lparr>surf_size = (1, 2), surf_format = ''RGBA'',
          surf_rows = [[[0, 0, 0, 0]], [[0, 0, 0, 0]]]\<rparr>"
    by (simp add: example_library_def example_rotate_def)
  have zero:
    "get_pygame_image example_library ''missing.png'' (Some (0, 0)) True False False False 0
       (255, 255, 255) None = Inl ZeroDivisionError"
    by (simp add: get_pygame_image_def example_library_def get_filename_def osp_join_def
        bind_err_def Image_new_def example_keep_aspect_ratio_def)
  from turned zero show ?thesis by blast
qed

text \<open>
  Claim C7, amended. For an asset name with no file and a target size of at least one
  pixel each way, the call does not raise, whatever the other arguments: it makes a
  surface of exactly the target size, with that many rows and columns, whose every pixel
  has alpha 0, and returns it as it is when the angle is 0 and turned by
  \<^verbatim>\<open>pygame.transform.rotate\<close> otherwise. The functions of \<^verbatim>\<open>sizing\<close> and the crop of
  PIL, which are parameters, are assumed to leave an image that already has the target
  size as it is.
\<close>

theorem get_pygame_image_missing_asset:
  assumes "\<not> isfile lib (get_filename lib name)"
      and "1 \<le> w" and "1 \<le> h"
      and "new_size_keep_aspect_ratio lib (w, h) (w, h) = Inr (w, h)"
      and "crop \<Longrightarrow> \<exists>box. new_size_by_croping_ratio lib (w, h) (w, h) = Inr box \<and>
             (\<forall>q. crop_region lib (flat_image (w, h) q) box = Inr (flat_image (w, h) q))"
  shows "\<exists>s. surf_size s = (w, h) \<and> fully_transparent s \<and>
             length (surf_rows s) = nat h \<and> (\<forall>row \<in> set (surf_rows s). length row = nat w) \<and>
             get_pygame_image lib name (Some (w, h)) antialiasing hflip vflip crop angle
               color bg_color = Inr (if angle \<noteq> 0 then rotate lib s angle else s)"
proof -
  from get_pygame_image_flat
         [OF assms, where antialiasing = antialiasing and hflip = hflip and vflip = vflip
            and angle = angle and color = color and bg_color = bg_color]
  obtain r g b where
    "get_pygame_image lib name (Some (w, h)) antialiasing hflip vflip crop angle color bg_color =
       Inr (let s = \<lparr>surf_size = (w, h), surf_format = ''RGBA'',
                       surf_rows = replicate (nat h) (replicate (nat w) [r, g, b, 0])\<rparr>
            in if angle \<noteq> 0 then rotate lib s angle else s)"
    by blast
  then show ?thesis
    by (intro exI [of _ "\<lparr>surf_size = (w, h), surf_format = ''RGBA'',
                          surf_rows = replicate (nat h) (replicate (nat w) [r, g, b, 0])\<rparr>"])
       (simp add: fully_transparent_def Let_def)
qed

theorem get_pygame_image_missing_asset_witness:
  "\<not> isfile example_library (get_filename example_library ''missing.png'') \<and>
   (1::int) \<le> 3 \<and> (1::int) \<le> 2 \<and>
   new_size_keep_aspect_ratio example_library (3, 2) (3, 2) = Inr (3, 2) \<and>
   (\<exists>box. new_size_by_croping_ratio example_library (3, 2) (3, 2) = Inr box \<and>
      (\<forall>q. crop_region example_library (flat_image (3, 2) q) box = Inr (flat_image (3, 2) q))) \<and>
   (\<exists>s. surf_size s = (3, 2) \<and> fully_transparent s \<and>
         length (surf_rows s) = nat 2 \<and> (\<forall>row \<in> set (surf_rows s). length row = nat 3) \<and>
         get_pygame_image example_library ''missing.png'' (Some (3, 2)) True True False True 90
           (0, 0, 255) None =
           Inr (if (90::int) \<noteq> 0 then rotate example_library s 90 else s))"
proof -
  from get_pygame_image_missing_asset
         [OF example_missing _ _ example_keep_same example_crop_whole,
          where antialiasing = True and hflip = True and vflip = False and crop = True
            and angle = 90 and color = "(0, 0, 255)" and bg_color = None]
  show ?thesis
    using example_missing example_keep_same example_crop_whole by simp
qed

text \<open>
  Claim C8, as stated, fails: with no target size the flip and the rotation are still
  applied. The example asset loaded with the horizontal flip asked for comes back with
  its two pixels exchanged, which is not the surface the decoder gave.
\<close>

theorem get_pygame_image_no_size_counterexample:
  "image_load example_library (get_filename example_library ''camera.png'') =
     Inr \<lparr>surf_size = (2, 1), surf_format = ''RGBA'',
          surf_rows = [[[255, 255, 255, 255], [0, 0, 0, 0]]]\<rparr> \<and>
   get_pygame_image example_library ''camera.png'' None True True False False 0
     (255, 255, 255) None =
     Inr \<lparr>surf_size = (2, 1), surf_format = ''RGBA'',
          surf_rows = [[[0, 0, 0, 0], [255, 255, 255, 255]]]\<rparr> \<and>
   get_pygame_image example_library ''camera.png'' None True True False False 0
     (255, 255, 255) None \<noteq>
     image_load example_library (get_filename example_library ''camera.png'')"
  by (simp add: get_pygame_image_def example_library_def get_filename_def osp_join_def
      bind_err_def example_surface_def flip_def)

text \<open>
  Claim C8, amended. With no target size the surface is the asset as decoded, with no
  recolouring, cropping or resizing, whatever the antialiasing, crop and colour
  arguments; the flip is applied when \<^verbatim>\<open>hflip\<close> or \<^verbatim>\<open>vflip\<close> is set and the rotation when
  \<^verbatim>\<open>angle\<close> is not 0. With no flip and angle 0 the result is what the decoder returned.
\<close>

theorem get_pygame_image_no_size:
  "get_pygame_image lib name None antialiasing hflip vflip crop angle color bg_color =
     bind_err (image_load lib (get_filename lib name))
       (\<lambda>image0. Inr ((if angle \<noteq> 0 then (\<lambda>s. rotate lib s angle) else id)
                        ((if hflip \<or> vflip then (\<lambda>s. flip s hflip vflip) else id) image0))) \<and>
   (\<not> hflip \<and> \<not> vflip \<and> angle = 0 \<longrightarrow>
      get_pygame_image lib name None antialiasing hflip vflip crop angle color bg_color =
        image_load lib (get_filename lib name))"
  by (cases "image_load lib (get_filename lib name)")
     (auto simp add: get_pygame_image_def bind_err_def Let_def)

theorem get_pygame_image_no_size_witness:
  "\<not> False \<and> \<not> False \<and> (0::int) = 0 \<and>
   get_pygame_image example_library ''camera.png'' None False False False True 0
     (0, 0, 255) (Some (9, 9, 9)) = Inr example_surface"
proof -
  have "image_load example_library (get_filename example_library ''camera.png'') =
        Inr example_surface"
    by (simp add: example_library_def get_filename_def osp_join_def)
  with get_pygame_image_no_size
         [of example_library "''camera.png''" False False False True 0 "(0, 0, 255)"
             "Some (9, 9, 9)"]
  show ?thesis by (simp add: bind_err_def)
qed



text \<open>
  The module has no check of the target size and no error of its own for it: unless one
  of the primitives it calls raises the error the specification names, no call does.
\<close>

lemma set_picto_color_no_geometry_error:
  "set_picto_color lib im color bg_color \<noteq> Inl InvalidGeometryError"
  by (auto simp add: set_picto_color_def colorize_def putalpha_def bind_err_def Let_def
      split: list.splits if_splits)

lemma get_pygame_image_no_geometry_error:
  assumes "\<And>p. image_load lib p \<noteq> Inl InvalidGeometryError"
      and "\<And>p. Image_open lib p \<noteq> Inl InvalidGeometryError"
      and "\<And>im box. crop_region lib im box \<noteq> Inl InvalidGeometryError"
      and "\<And>im s a. resample lib im s a \<noteq> Inl InvalidGeometryError"
      and "\<And>a b. new_size_by_croping_ratio lib a b \<noteq> Inl InvalidGeometryError"
      and "\<And>a b. new_size_keep_aspect_ratio lib a b \<noteq> Inl InvalidGeometryError"
  shows "get_pygame_image lib name sz antialiasing hflip vflip crop angle color bg_color \<noteq>
         Inl InvalidGeometryError"
proof
  have prims:
    "\<forall>p. image_load lib p \<noteq> Inl InvalidGeometryError"
    "\<forall>p. Image_open lib p \<noteq> Inl InvalidGeometryError"
    "\<forall>im box. crop_region lib im box \<noteq> Inl InvalidGeometryError"
    "\<forall>im s a. resample lib im s a \<noteq> Inl InvalidGeometryError"
    "\<forall>a b. new_size_by_croping_ratio lib a b \<noteq> Inl InvalidGeometryError"
    "\<forall>a b. new_size_keep_aspect_ratio lib a b \<noteq> Inl InvalidGeometryError"
    "\<forall>im. set_picto_color lib im color bg_color \<noteq> Inl InvalidGeometryError"
    using assms set_picto_color_no_geometry_error by blast+
  assume "get_pygame_image lib name sz antialiasing hflip vflip crop angle color bg_color =
          Inl InvalidGeometryError"
  then show False
    unfolding get_pygame_image_def Let_def
    using prims
    by (auto dest!: bind_err_Inl simp add: Image_new_def resize_def fromstring_def Let_def
        simp del: split_paired_All split_paired_Ex split: option.splits if_splits)
qed




end
